theory Spec2Isabelle
  imports Complex_Main "HOL-Library.AList"
begin

section \<open>Python values, exceptions and the process environment\<close>

text \<open>
  The handlers of \<open>main.py\<close> either return a value or raise. A raise is the left
  summand of a result \<open>exn + 'a\<close>. Two kinds of exception occur: FastAPI's
  \<open>HTTPException(status_code, detail)\<close>, which is a subclass of \<open>Exception\<close>, and every
  other exception (a transport error of \<open>requests\<close>, a JSON decoding error, a database
  error), which is kept as the text that \<open>str(e)\<close> gives.
\<close>

datatype exn = HTTPException int string | Exception string

definition digit_char :: "nat \<Rightarrow> char" where
  "digit_char d = char_of (48 + d)"

fun str_nat :: "nat \<Rightarrow> string" where
  "str_nat n = (if n < 10 then [digit_char n] else str_nat (n div 10) @ [digit_char (n mod 10)])"

declare str_nat.simps [simp del]

definition str_int :: "int \<Rightarrow> string" where
  "str_int i = (if i < 0 then CHR ''-'' # str_nat (nat (- i)) else str_nat (nat i))"

text \<open>
  \<open>str(e)\<close>. For an \<open>HTTPException\<close> this is Starlette's
  \<open>__str__\<close>, the status code, a colon, a blank and the detail; for any other exception it
  is the message.
\<close>

fun exc_str :: "exn \<Rightarrow> string" where
  "exc_str (HTTPException status_code detail) = str_int status_code @ '': '' @ detail"
| "exc_str (Exception msg) = msg"

text \<open>
  \<open>os.getenv(name)\<close> reads the environment, a dictionary from names to strings, and
  gives \<open>None\<close> for a missing name. \<open>truthy\<close> is Python's truth value of an
  \<open>Optional[str]\<close>: \<open>None\<close> and the empty string are false.
\<close>

type_synonym environ = "string \<Rightarrow> string option"

definition getenv :: "environ \<Rightarrow> string \<Rightarrow> string option" where
  "getenv env name = env name"

fun truthy :: "string option \<Rightarrow> bool" where
  "truthy None = False"
| "truthy (Some s) = (s \<noteq> [])"

text \<open>
  The clause \<open>except Exception as e: raise HTTPException(status_code=500, detail=str(e))\<close>
  that closes the \<open>try\<close> block of every proxy and wishlist handler.
\<close>

definition except_Exception_500 :: "exn + 'a \<Rightarrow> exn + 'a" where
  "except_Exception_500 body =
     (case body of
        Inl e \<Rightarrow> Inl (HTTPException 500 (exc_str e))
      | Inr v \<Rightarrow> Inr v)"

section \<open>Proxy endpoints of the card catalog\<close>

text \<open>
  \<open>requests.get(url, params=params, timeout=20)\<close> is the outside world: it raises or
  gives a response with a status code, a text (the field \<open>text\<close>, here
  \<open>text'\<close>) and the outcome of \<open>r.json()\<close>, which raises on a body that is not
  JSON. The JSON value itself is opaque (\<open>'j\<close>).
\<close>

datatype qparam = QInt int | QStr string

record 'j response =
  status_code :: int
  text' :: string
  json :: "exn + 'j"

type_synonym 'j http_get = "string \<Rightarrow> (string \<times> qparam) list \<Rightarrow> exn + 'j response"

definition PTCG_API_BASE :: string where
  "PTCG_API_BASE = ''https://api.pokemontcg.io/v2''"

text \<open>Lines 81 to 83 of \<open>search_cards\<close>: the dictionary \<open>params\<close>.\<close>

definition search_params :: "string option \<Rightarrow> int \<Rightarrow> int \<Rightarrow> (string \<times> qparam) list" where
  "search_params q page pageSize =
     (let params = [(''page'', QInt page), (''pageSize'', QInt pageSize)]
      in case q of
           None \<Rightarrow> params
         | Some s \<Rightarrow> if truthy (Some s) then AList.update ''q'' (QStr s) params else params)"

definition search_cards :: "'j http_get \<Rightarrow> string option \<Rightarrow> int \<Rightarrow> int \<Rightarrow> exn + 'j" where
  "search_cards requests_get q page pageSize =
     except_Exception_500
       (case requests_get (PTCG_API_BASE @ ''/cards'') (search_params q page pageSize) of
          Inl e \<Rightarrow> Inl e
        | Inr r \<Rightarrow>
            if status_code r \<noteq> 200 then Inl (HTTPException (status_code r) (text' r))
            else json r)"

text \<open>
  The route \<open>GET /api/cards\<close>: a query parameter that the request leaves out takes the
  default of the signature (\<open>q = None\<close>, \<open>page = 1\<close>, \<open>pageSize = 24\<close>).
\<close>

definition get_api_cards ::
  "'j http_get \<Rightarrow> string option \<Rightarrow> int option \<Rightarrow> int option \<Rightarrow> exn + 'j" where
  "get_api_cards requests_get q page pageSize =
     search_cards requests_get q
       (case page of None \<Rightarrow> 1 | Some p \<Rightarrow> p)
       (case pageSize of None \<Rightarrow> 24 | Some n \<Rightarrow> n)"

definition get_card :: "'j http_get \<Rightarrow> string \<Rightarrow> exn + 'j" where
  "get_card requests_get card_id =
     except_Exception_500
       (case requests_get (PTCG_API_BASE @ ''/cards/'' @ card_id) [] of
          Inl e \<Rightarrow> Inl e
        | Inr r \<Rightarrow>
            if status_code r \<noteq> 200 then Inl (HTTPException (status_code r) (text' r))
            else json r)"

definition sets_params :: "int \<Rightarrow> int \<Rightarrow> string option \<Rightarrow> (string \<times> qparam) list" where
  "sets_params page pageSize orderBy =
     (let params = [(''page'', QInt page), (''pageSize'', QInt pageSize)]
      in case orderBy of
           None \<Rightarrow> params
         | Some s \<Rightarrow> if truthy (Some s) then AList.update ''orderBy'' (QStr s) params else params)"

definition list_sets :: "'j http_get \<Rightarrow> int \<Rightarrow> int \<Rightarrow> string option \<Rightarrow> exn + 'j" where
  "list_sets requests_get page pageSize orderBy =
     except_Exception_500
       (case requests_get (PTCG_API_BASE @ ''/sets'') (sets_params page pageSize orderBy) of
          Inl e \<Rightarrow> Inl e
        | Inr r \<Rightarrow>
            if status_code r \<noteq> 200 then Inl (HTTPException (status_code r) (text' r))
            else json r)"

section \<open>The Cardmarket placeholder\<close>

definition NOT_CONFIGURED :: string where
  "NOT_CONFIGURED = ''Cardmarket API not configured. Provide OAuth credentials to enable.''"

definition PENDING :: string where
  "PENDING = ''Cardmarket integration pending implementation.''"

definition get_cardmarket_price :: "environ \<Rightarrow> string \<Rightarrow> exn + unit" where
  "get_cardmarket_price env card_id =
     (let app_token = getenv env ''CARDMARKET_APP_TOKEN''
      in if \<not> truthy app_token then Inl (HTTPException 501 NOT_CONFIGURED)
         else Inl (HTTPException 501 PENDING))"

text \<open>
  The four credential variables that the docstring of \<open>get_cardmarket_price\<close> names, and
  the reading of "credentials are present" by its words: some credential variable holds
  a value.
\<close>

definition credential_variables :: "string list" where
  "credential_variables =
     [''CARDMARKET_APP_TOKEN'', ''APP_SECRET'', ''ACCESS_TOKEN'', ''ACCESS_TOKEN_SECRET'']"

definition credentials_present :: "environ \<Rightarrow> bool" where
  "credentials_present env = list_ex (\<lambda>v. truthy (getenv env v)) credential_variables"

text \<open>
  "Set", as the program itself reports it: \<open>test_database\<close> answers \<open>Set\<close> exactly when
  \<open>os.getenv\<close> gives a true value, and \<open>get_cardmarket_price\<close> tests its token the same
  way.
\<close>

definition env_set :: "environ \<Rightarrow> string \<Rightarrow> bool" where
  "env_set env name = truthy (getenv env name)"

section \<open>The diagnostic route\<close>

text \<open>
  The three pictographs of the messages, as their UTF-8 bytes. Apart from them a
  \<open>char\<close> of a message stands for one character of the Python string, so that
  \<open>str(e)[:80]\<close> is \<open>take 80\<close>.
\<close>

definition CHECK_MARK :: string where
  "CHECK_MARK = [CHR 0xE2, CHR 0x9C, CHR 0x85]"

definition CROSS_MARK :: string where
  "CROSS_MARK = [CHR 0xE2, CHR 0x9D, CHR 0x8C]"

definition WARNING_SIGN :: string where
  "WARNING_SIGN = [CHR 0xE2, CHR 0x9A, CHR 0xA0, CHR 0xEF, CHR 0xB8, CHR 0x8F]"

record test_response =
  backend :: string
  database :: string
  database_url :: "string option"
  database_name :: "string option"
  connection_status :: string
  collections :: "string list"

text \<open>
  \<open>test_database\<close> reads the handle \<open>db\<close> of the database module (\<open>None\<close> when there
  is no connection) and calls \<open>db.list_collection_names()\<close>, which gives the names or
  raises. Both \<open>try\<close> blocks are kept: the inner one around the listing, the outer one
  around the whole test of the handle.
\<close>

definition test_database ::
  "'h option \<Rightarrow> ('h \<Rightarrow> exn + string list) \<Rightarrow> environ \<Rightarrow> exn + test_response" where
  "test_database db list_collection_names env =
     (let response = \<lparr>backend = CHECK_MARK @ '' Running'',
                       database = CROSS_MARK @ '' Not Available'',
                       database_url = None,
                       database_name = None,
                       connection_status = ''Not Connected'',
                       collections = []\<rparr>;
          outer_try =
            (case db of
               Some h \<Rightarrow>
                 (let response = response\<lparr>database := CHECK_MARK @ '' Available''\<rparr>;
                      inner_try =
                        (case list_collection_names h of
                           Inl e \<Rightarrow> Inl e
                         | Inr colls \<Rightarrow>
                             Inr (response\<lparr>collections := take 10 colls,
                                            database := CHECK_MARK @ '' Connected & Working'',
                                            connection_status := ''Connected''\<rparr>))
                  in case inner_try of
                       Inr response \<Rightarrow> Inr response
                     | Inl e \<Rightarrow>
                         Inr (response\<lparr>database :=
                                WARNING_SIGN @ ''  Connected but Error: '' @ take 80 (exc_str e)\<rparr>))
             | None \<Rightarrow>
                 Inr (response\<lparr>database := WARNING_SIGN @ ''  Available but not initialized''\<rparr>));
          response =
            (case outer_try of
               Inr response \<Rightarrow> response
             | Inl e \<Rightarrow> response\<lparr>database := CROSS_MARK @ '' Error: '' @ take 80 (exc_str e)\<rparr>);
          response = response\<lparr>database_url :=
            Some (if truthy (getenv env ''DATABASE_URL'') then CHECK_MARK @ '' Set''
                  else CROSS_MARK @ '' Not Set'')\<rparr>;
          response = response\<lparr>database_name :=
            Some (if truthy (getenv env ''DATABASE_NAME'') then CHECK_MARK @ '' Set''
                  else CROSS_MARK @ '' Not Set'')\<rparr>
      in Inr response)"

section \<open>Reading the wishlist\<close>

text \<open>
  \<open>get_documents\<close> is imported from the database module, which is not part of the
  sources at hand: \<open>list_wishlist\<close> takes it as a parameter. A document is a Python
  dictionary, a list of keys with their values in insertion order.
\<close>

datatype pyval = PNone | PStr string | PFloat rat | ObjectId string

type_synonym document = "(string \<times> pyval) list"

type_synonym get_documents_fn = "string \<Rightarrow> document \<Rightarrow> exn + document list"

text \<open>
  Lines 147 to 149 of \<open>list_wishlist\<close>, for one document: \<open>d.pop("_id")\<close> removes the
  key, \<open>d["id"] = ...\<close> sets the key \<open>id\<close>, in place when the dictionary has it already
  and at its end otherwise. \<open>py_str\<close> is Python's \<open>str\<close>.
\<close>

definition convert_id :: "(pyval \<Rightarrow> string) \<Rightarrow> document \<Rightarrow> document" where
  "convert_id py_str d =
     (case map_of d ''_id'' of
        Some v \<Rightarrow> AList.update ''id'' (PStr (py_str v)) (AList.delete ''_id'' d)
      | None \<Rightarrow> d)"

definition list_wishlist ::
  "(pyval \<Rightarrow> string) \<Rightarrow> get_documents_fn \<Rightarrow> string option
     \<Rightarrow> exn + (string \<times> document list) list" where
  "list_wishlist py_str get_documents status =
     except_Exception_500
       (let filter_dict =
              (case status of
                 None \<Rightarrow> []
               | Some s \<Rightarrow> if truthy (Some s) then [(''status'', PStr s)] else [])
        in case get_documents ''wishlistitem'' filter_dict of
             Inl e \<Rightarrow> Inl e
           | Inr docs \<Rightarrow> Inr [(''items'', map (convert_id py_str) docs)])"

section \<open>The document store\<close>

text \<open>
  Modelled from the spec: the database module (\<open>database.py\<close>, with the handle \<open>db\<close>
  and \<open>get_documents\<close>) is missing from the sources. By section 4.3 of the
  specification, \<open>query(collection, filter)\<close> takes an equality filter, a mapping from keys
  to values of which the empty one means all records, and returns all matching records in
  the order of the store; each returned record carries an identifier field. By section 3
  the connection may be absent, and then a read fails with an error.

  A store maps a collection name to its records, in store order. A record is kept as its
  identifier and its other fields, so that every record read from the store has the
  identifier under the key \<open>_id\<close>, where \<open>list_wishlist\<close> looks for it.
\<close>

type_synonym store = "(string \<times> (string \<times> document) list) list"

definition stored_record :: "string \<times> document \<Rightarrow> document" where
  "stored_record rec = (''_id'', ObjectId (fst rec)) # AList.delete ''_id'' (snd rec)"

definition collection :: "store \<Rightarrow> string \<Rightarrow> document list" where
  "collection st collection_name =
     (case map_of st collection_name of
        None \<Rightarrow> []
      | Some recs \<Rightarrow> map stored_record recs)"

definition matches :: "document \<Rightarrow> document \<Rightarrow> bool" where
  "matches filter_dict d = list_all (\<lambda>kv. map_of d (fst kv) = Some (snd kv)) filter_dict"

definition get_documents :: "store option \<Rightarrow> string \<Rightarrow> document \<Rightarrow> exn + document list" where
  "get_documents db collection_name filter_dict =
     (case db of
        None \<Rightarrow> Inl (Exception ''Database not available'')
      | Some st \<Rightarrow> Inr (filter (matches filter_dict) (collection st collection_name)))"

section \<open>Wishlist payloads and their validation\<close>

text \<open>
  A request body gives each field of the model a value of the declared type, gives it
  \<open>null\<close>, or leaves it out. Values of another JSON type are outside this model.
  A price is a \<open>float\<close> in Python; only its order against zero matters here, and it is a
  rational number in the model.
\<close>

datatype 'a field = Omitted | Null | Given 'a

record wishlist_payload =
  p_card_id :: "string field"
  p_name :: "string field"
  p_set_name :: "string field"
  p_set_id :: "string field"
  p_number :: "string field"
  p_image_url :: "string field"
  p_desired_price :: "rat field"
  p_notes :: "string field"
  p_status :: "string field"

text \<open>
  The validated model. \<open>WishlistIn\<close> of \<open>main.py\<close> and \<open>WishlistItem\<close> of
  \<open>schemas.py\<close> have the same fields and differ in the type of \<open>status\<close>:
  \<open>Optional[str]\<close> in the first, \<open>str\<close> in the second. The field \<open>notes\<close> is
  written \<open>notes'\<close>.
\<close>

record 'st wishlist_model =
  card_id :: string
  name :: string
  set_name :: "string option"
  set_id :: "string option"
  number :: "string option"
  image_url :: "string option"
  desired_price :: "rat option"
  notes' :: "string option"
  status :: 'st

type_synonym WishlistIn = "string option wishlist_model"

type_synonym WishlistItem = "string wishlist_model"

datatype validation_error = missing string | string_type string | greater_than_equal string

text \<open>A field of type \<open>str\<close> with no default (\<open>Field(...)\<close>).\<close>

fun required_str :: "string \<Rightarrow> string field \<Rightarrow> validation_error + string" where
  "required_str loc Omitted = Inl (missing loc)"
| "required_str loc Null = Inl (string_type loc)"
| "required_str loc (Given s) = Inr s"

text \<open>A field of type \<open>Optional[T]\<close> with a default and no constraint.\<close>

fun optional_field :: "'a option \<Rightarrow> 'a field \<Rightarrow> 'a option" where
  "optional_field dflt Omitted = dflt"
| "optional_field dflt Null = None"
| "optional_field dflt (Given v) = Some v"

text \<open>A field \<open>Optional[float] = Field(None, ge=bound)\<close>.\<close>

fun optional_ge :: "string \<Rightarrow> rat \<Rightarrow> rat field \<Rightarrow> validation_error + rat option" where
  "optional_ge loc bound Omitted = Inr None"
| "optional_ge loc bound Null = Inr None"
| "optional_ge loc bound (Given x) =
     (if x \<ge> bound then Inr (Some x) else Inl (greater_than_equal loc))"

text \<open>A field \<open>str = Field(default)\<close>.\<close>

fun defaulted_str :: "string \<Rightarrow> string \<Rightarrow> string field \<Rightarrow> validation_error + string" where
  "defaulted_str loc dflt Omitted = Inr dflt"
| "defaulted_str loc dflt Null = Inl (string_type loc)"
| "defaulted_str loc dflt (Given s) = Inr s"

text \<open>
  \<open>WishlistIn\<close>, lines 23 to 32 of \<open>main.py\<close>. The first failing field is reported.
\<close>

definition validate_WishlistIn :: "wishlist_payload \<Rightarrow> validation_error + WishlistIn" where
  "validate_WishlistIn p =
     (case required_str ''card_id'' (p_card_id p) of
        Inl e \<Rightarrow> Inl e
      | Inr cid \<Rightarrow>
     (case required_str ''name'' (p_name p) of
        Inl e \<Rightarrow> Inl e
      | Inr nm \<Rightarrow>
          Inr \<lparr>card_id = cid,
               name = nm,
               set_name = optional_field None (p_set_name p),
               set_id = optional_field None (p_set_id p),
               number = optional_field None (p_number p),
               image_url = optional_field None (p_image_url p),
               desired_price = optional_field None (p_desired_price p),
               notes' = optional_field None (p_notes p),
               status = optional_field (Some ''watching'') (p_status p)\<rparr>))"

text \<open>\<open>WishlistItem\<close>, lines 19 to 32 of \<open>schemas.py\<close>.\<close>

definition validate_WishlistItem :: "wishlist_payload \<Rightarrow> validation_error + WishlistItem" where
  "validate_WishlistItem p =
     (case required_str ''card_id'' (p_card_id p) of
        Inl e \<Rightarrow> Inl e
      | Inr cid \<Rightarrow>
     (case required_str ''name'' (p_name p) of
        Inl e \<Rightarrow> Inl e
      | Inr nm \<Rightarrow>
     (case optional_ge ''desired_price'' 0 (p_desired_price p) of
        Inl e \<Rightarrow> Inl e
      | Inr price \<Rightarrow>
     (case defaulted_str ''status'' ''watching'' (p_status p) of
        Inl e \<Rightarrow> Inl e
      | Inr st \<Rightarrow>
          Inr \<lparr>card_id = cid,
               name = nm,
               set_name = optional_field None (p_set_name p),
               set_id = optional_field None (p_set_id p),
               number = optional_field None (p_number p),
               image_url = optional_field None (p_image_url p),
               desired_price = price,
               notes' = optional_field None (p_notes p),
               status = st\<rparr>))))"

section \<open>Adding to the wishlist\<close>

text \<open>
  \<open>create_document\<close> is imported from the database module as well and is a parameter
  of \<open>add_wishlist\<close>. It writes, so it takes the state of the store and returns the new
  one beside its result.
\<close>

type_synonym 's create_document_fn =
  "string \<Rightarrow> WishlistIn \<Rightarrow> 's \<Rightarrow> (exn + string) \<times> 's"

definition add_wishlist ::
  "'s create_document_fn \<Rightarrow> WishlistIn \<Rightarrow> 's \<Rightarrow> (exn + (string \<times> string) list) \<times> 's" where
  "add_wishlist create_document item s =
     (case create_document ''wishlistitem'' item s of
        (Inr doc_id, s') \<Rightarrow> (except_Exception_500 (Inr [(''id'', doc_id)]), s')
      | (Inl e, s') \<Rightarrow> (except_Exception_500 (Inl e), s'))"

text \<open>
  The route \<open>POST /api/wishlist\<close>: the body is validated against \<open>WishlistIn\<close>, the type
  of the parameter \<open>item\<close>; a body that fails is answered with the validation error and
  the handler is not called.
\<close>

definition post_api_wishlist ::
  "'s create_document_fn \<Rightarrow> wishlist_payload \<Rightarrow> 's
     \<Rightarrow> (validation_error + (exn + (string \<times> string) list)) \<times> 's" where
  "post_api_wishlist create_document payload s =
     (case validate_WishlistIn payload of
        Inl verr \<Rightarrow> (Inl verr, s)
      | Inr item \<Rightarrow>
          (case add_wishlist create_document item s of (r, s') \<Rightarrow> (Inr r, s')))"

section \<open>Auxiliary facts\<close>

lemma except_Exception_500_simps:
  "except_Exception_500 (Inl e) = Inl (HTTPException 500 (exc_str e))"
  "except_Exception_500 (Inr v) = Inr v"
  by (simp_all add: except_Exception_500_def)

lemma search_params_eq:
  "search_params q page pageSize =
     [(''page'', QInt page), (''pageSize'', QInt pageSize)] @
     (case q of None \<Rightarrow> [] | Some s \<Rightarrow> if s = [] then [] else [(''q'', QStr s)])"
  by (simp add: search_params_def split: option.splits)

lemma matches_Nil: "matches [] = (\<lambda>d. True)"
  by (rule ext) (simp add: matches_def)

lemma matches_status: "matches [(''status'', v)] = (\<lambda>d. map_of d ''status'' = Some v)"
  by (rule ext) (simp add: matches_def)

lemma map_of_stored_record_id: "map_of (stored_record rec) ''_id'' = Some (ObjectId (fst rec))"
  by (simp add: stored_record_def)

lemma convert_id_Some:
  "map_of d ''_id'' = Some v \<Longrightarrow>
     map_of (convert_id py_str d) ''id'' = Some (PStr (py_str v))
   \<and> map_of (convert_id py_str d) ''_id'' = None
   \<and> (\<forall>k. k \<noteq> ''id'' \<and> k \<noteq> ''_id'' \<longrightarrow> map_of (convert_id py_str d) k = map_of d k)"
  by (simp add: convert_id_def update_conv' delete_conv')

lemma convert_id_stored:
  "map_of d ''_id'' = Some v \<Longrightarrow>
     map_of (convert_id py_str d) = ((map_of d)(''_id'' := None))(''id'' \<mapsto> PStr (py_str v))"
  by (rule ext) (simp add: convert_id_def update_conv' delete_conv')

section \<open>The proxy endpoints and an upstream error\<close>

text \<open>
  Claim C1 says that a non-200 answer of the upstream catalog reaches the caller with the
  same status code and the upstream body. The handlers raise exactly that
  \<open>HTTPException\<close>, but inside the \<open>try\<close> block whose \<open>except Exception\<close> clause
  catches it, since \<open>HTTPException\<close> is an \<open>Exception\<close>: the caller gets status 500,
  with the text of the caught exception as detail. Evaluated for an upstream answer
  404 with body \<open>Not Found\<close>, on the three endpoints.
\<close>

theorem upstream_404_surfaces_as_500:
  "search_cards
     (\<lambda>url params. Inr \<lparr>status_code = 404, text' = ''Not Found'', json = Inr ()\<rparr>) None 1 24
     = Inl (HTTPException 500 (exc_str (HTTPException 404 ''Not Found'')))
   \<and> get_card
     (\<lambda>url params. Inr \<lparr>status_code = 404, text' = ''Not Found'', json = Inr ()\<rparr>) ''sv3-1''
     = Inl (HTTPException 500 (exc_str (HTTPException 404 ''Not Found'')))
   \<and> list_sets
     (\<lambda>url params. Inr \<lparr>status_code = 404, text' = ''Not Found'', json = Inr ()\<rparr>) 1 50 None
     = Inl (HTTPException 500 (exc_str (HTTPException 404 ''Not Found'')))"
  by (simp add: search_cards_def get_card_def list_sets_def except_Exception_500_simps)

section \<open>Validation of wishlist payloads\<close>

text \<open>
  Claim C2 says that a payload with a negative \<open>desired_price\<close> is rejected before any
  store write. The bound \<open>ge=0\<close> is declared on \<open>WishlistItem\<close> in \<open>schemas.py\<close>, which
  rejects the payload, but the route validates against \<open>WishlistIn\<close>, which declares no
  bound: the payload with price \<open>-5\<close> passes and \<open>create_document\<close> is called with it.
  Here \<open>create_document\<close> is a store that appends what it is given to a log.
\<close>

theorem negative_price_reaches_the_store:
  "post_api_wishlist (\<lambda>c item log. (Inr ''1'', log @ [(c, item)]))
     \<lparr>p_card_id = Given ''sv3-1'', p_name = Given ''Charizard'', p_set_name = Omitted,
      p_set_id = Omitted, p_number = Omitted, p_image_url = Omitted,
      p_desired_price = Given (- 5), p_notes = Omitted, p_status = Omitted\<rparr> []
   = (Inr (Inr [(''id'', ''1'')]),
      [(''wishlistitem'',
        \<lparr>card_id = ''sv3-1'', name = ''Charizard'', set_name = None, set_id = None,
         number = None, image_url = None, desired_price = Some (- 5), notes' = None,
         status = Some ''watching''\<rparr>)])
   \<and> validate_WishlistItem
     \<lparr>p_card_id = Given ''sv3-1'', p_name = Given ''Charizard'', p_set_name = Omitted,
      p_set_id = Omitted, p_number = Omitted, p_image_url = Omitted,
      p_desired_price = Given (- 5), p_notes = Omitted, p_status = Omitted\<rparr>
   = Inl (greater_than_equal ''desired_price'')"
  by (simp add: post_api_wishlist_def validate_WishlistIn_def validate_WishlistItem_def
      add_wishlist_def except_Exception_500_simps)

text \<open>
  Claim C3 says that an accepted payload has a status among \<open>watching\<close>, \<open>bought\<close> and
  \<open>removed\<close>, and that any other status string is rejected. These are the values that
  line 32 of \<open>schemas.py\<close> documents for the field, but the field is declared as a plain
  string and no model checks the value: \<open>POST /api/wishlist\<close> with the status
  \<open>pending\<close>, which is none of the three, is accepted, and \<open>create_document\<close> is called
  with it. Here \<open>create_document\<close> is a store that appends what it is given to a log.
\<close>

theorem unlisted_status_is_accepted:
  "post_api_wishlist (\<lambda>c item log. (Inr ''1'', log @ [(c, item)]))
     \<lparr>p_card_id = Given ''sv3-1'', p_name = Given ''Charizard'', p_set_name = Omitted,
      p_set_id = Omitted, p_number = Omitted, p_image_url = Omitted,
      p_desired_price = Omitted, p_notes = Omitted, p_status = Given ''pending''\<rparr> []
   = (Inr (Inr [(''id'', ''1'')]),
      [(''wishlistitem'',
        \<lparr>card_id = ''sv3-1'', name = ''Charizard'', set_name = None, set_id = None,
         number = None, image_url = None, desired_price = None, notes' = None,
         status = Some ''pending''\<rparr>)])
   \<and> ''pending'' \<notin> {''watching'', ''bought'', ''removed''}"
  by (simp add: post_api_wishlist_def validate_WishlistIn_def
      add_wishlist_def except_Exception_500_simps)

section \<open>Adding to and reading the wishlist\<close>

text \<open>
  Claim C7: for every valid payload, \<open>POST /api/wishlist\<close> returns the identifier that
  \<open>create_document\<close> gives when the store succeeds, and when the store raises, whatever
  the exception (a missing connection is one), it fails with status 500 and the text of
  that exception as detail, which for an ordinary exception is its message. This holds
  for every behaviour of \<open>create_document\<close> and every state of the store.
\<close>

theorem add_wishlist_outcome:
  "validate_WishlistIn payload = Inr item \<Longrightarrow>
     (create_document ''wishlistitem'' item s = (Inr doc_id, s')
        \<longrightarrow> post_api_wishlist create_document payload s = (Inr (Inr [(''id'', doc_id)]), s'))
   \<and> (create_document ''wishlistitem'' item s = (Inl e, s')
        \<longrightarrow> post_api_wishlist create_document payload s
              = (Inr (Inl (HTTPException 500 (exc_str e))), s'))
   \<and> (create_document ''wishlistitem'' item s = (Inl (Exception msg), s')
        \<longrightarrow> post_api_wishlist create_document payload s
              = (Inr (Inl (HTTPException 500 msg)), s'))"
  by (simp add: post_api_wishlist_def add_wishlist_def except_Exception_500_simps)

text \<open>
  The claim at a payload that is valid, with a store that numbers its documents and with
  a store that has no connection.
\<close>

theorem add_wishlist_outcome_witness:
  "post_api_wishlist (\<lambda>c item n. (Inr (str_nat n), Suc n))
     \<lparr>p_card_id = Given ''sv3-1'', p_name = Given ''Charizard'', p_set_name = Omitted,
      p_set_id = Omitted, p_number = Omitted, p_image_url = Omitted,
      p_desired_price = Given 12, p_notes = Omitted, p_status = Given ''bought''\<rparr> (7::nat)
     = (Inr (Inr [(''id'', ''7'')]), 8)
   \<and> post_api_wishlist (\<lambda>c item n. (Inl (Exception ''Database not available''), n))
     \<lparr>p_card_id = Given ''sv3-1'', p_name = Given ''Charizard'', p_set_name = Omitted,
      p_set_id = Omitted, p_number = Omitted, p_image_url = Omitted,
      p_desired_price = Given 12, p_notes = Omitted, p_status = Given ''bought''\<rparr> (7::nat)
     = (Inr (Inl (HTTPException 500 ''Database not available'')), 7)"
proof -
  have v: "validate_WishlistIn
     \<lparr>p_card_id = Given ''sv3-1'', p_name = Given ''Charizard'', p_set_name = Omitted,
      p_set_id = Omitted, p_number = Omitted, p_image_url = Omitted,
      p_desired_price = Given 12, p_notes = Omitted, p_status = Given ''bought''\<rparr>
     = Inr \<lparr>card_id = ''sv3-1'', name = ''Charizard'', set_name = None, set_id = None,
          number = None, image_url = None, desired_price = Some 12, notes' = None,
          status = Some ''bought''\<rparr>"
    by (simp add: validate_WishlistIn_def)
  have n: "str_nat 7 = ''7''"
    by code_simp
  have a: "post_api_wishlist (\<lambda>c item n. (Inr (str_nat n), Suc n))
     \<lparr>p_card_id = Given ''sv3-1'', p_name = Given ''Charizard'', p_set_name = Omitted,
      p_set_id = Omitted, p_number = Omitted, p_image_url = Omitted,
      p_desired_price = Given 12, p_notes = Omitted, p_status = Given ''bought''\<rparr> (7::nat)
     = (Inr (Inr [(''id'', ''7'')]), 8)"
    using add_wishlist_outcome [OF v, of "\<lambda>c item n. (Inr (str_nat n), Suc n)" 7 "''7''" 8] n
    by simp
  have b: "post_api_wishlist (\<lambda>c item n. (Inl (Exception ''Database not available''), n))
     \<lparr>p_card_id = Given ''sv3-1'', p_name = Given ''Charizard'', p_set_name = Omitted,
      p_set_id = Omitted, p_number = Omitted, p_image_url = Omitted,
      p_desired_price = Given 12, p_notes = Omitted, p_status = Given ''bought''\<rparr> (7::nat)
     = (Inr (Inl (HTTPException 500 ''Database not available'')), 7)"
    using add_wishlist_outcome
      [OF v, of "\<lambda>c item n. (Inl (Exception ''Database not available''), n)" 7 _ 7
          "Exception ''Database not available''" "''Database not available''"]
    by simp
  from a b show ?thesis by simp
qed

text \<open>
  Claim C8: over every content of a live store, \<open>GET /api/wishlist?status=bought\<close>
  returns exactly the stored items whose \<open>status\<close> is \<open>bought\<close>, in store order,
  \<open>GET /api/wishlist\<close> without a status returns all items, and every returned item is
  the stored item with its identifier as a string under \<open>id\<close> in place of \<open>_id\<close>: every
  other field, the status among them, is as stored.
\<close>

theorem list_wishlist_filters_by_status:
  "list_wishlist py_str (get_documents (Some st)) (Some ''bought'')
     = Inr [(''items'', map (convert_id py_str)
              (filter (\<lambda>d. map_of d ''status'' = Some (PStr ''bought''))
                 (collection st ''wishlistitem'')))]
   \<and> list_wishlist py_str (get_documents (Some st)) None
     = Inr [(''items'', map (convert_id py_str) (collection st ''wishlistitem''))]
   \<and> (\<forall>d \<in> set (collection st ''wishlistitem'').
        \<exists>oid. map_of d ''_id'' = Some (ObjectId oid)
          \<and> map_of (convert_id py_str d)
              = ((map_of d)(''_id'' := None))(''id'' \<mapsto> PStr (py_str (ObjectId oid)))
          \<and> map_of (convert_id py_str d) ''id'' = Some (PStr (py_str (ObjectId oid)))
          \<and> map_of (convert_id py_str d) ''_id'' = None
          \<and> map_of (convert_id py_str d) ''status'' = map_of d ''status''
          \<and> (\<forall>k. k \<noteq> ''id'' \<and> k \<noteq> ''_id''
                \<longrightarrow> map_of (convert_id py_str d) k = map_of d k))"
proof -
  have 1: "list_wishlist py_str (get_documents (Some st)) (Some ''bought'')
     = Inr [(''items'', map (convert_id py_str)
              (filter (\<lambda>d. map_of d ''status'' = Some (PStr ''bought''))
                 (collection st ''wishlistitem'')))]"
    by (simp add: list_wishlist_def get_documents_def except_Exception_500_simps matches_status)
  have 2: "list_wishlist py_str (get_documents (Some st)) None
     = Inr [(''items'', map (convert_id py_str) (collection st ''wishlistitem''))]"
    by (simp add: list_wishlist_def get_documents_def except_Exception_500_simps matches_Nil)
  have 3: "\<exists>oid. map_of d ''_id'' = Some (ObjectId oid)
          \<and> map_of (convert_id py_str d)
              = ((map_of d)(''_id'' := None))(''id'' \<mapsto> PStr (py_str (ObjectId oid)))
          \<and> map_of (convert_id py_str d) ''id'' = Some (PStr (py_str (ObjectId oid)))
          \<and> map_of (convert_id py_str d) ''_id'' = None
          \<and> map_of (convert_id py_str d) ''status'' = map_of d ''status''
          \<and> (\<forall>k. k \<noteq> ''id'' \<and> k \<noteq> ''_id''
                \<longrightarrow> map_of (convert_id py_str d) k = map_of d k)"
    if "d \<in> set (collection st ''wishlistitem'')" for d
  proof -
    from that obtain rec where d: "d = stored_record rec"
      by (auto simp add: collection_def split: option.splits)
    have i: "map_of d ''_id'' = Some (ObjectId (fst rec))"
      by (simp add: d map_of_stored_record_id)
    from convert_id_Some [OF i, of py_str] convert_id_stored [OF i, of py_str] i show ?thesis
      by auto
  qed
  from 1 2 3 show ?thesis by blast
qed

text \<open>The claim on a store of three items, one of them bought.\<close>

theorem list_wishlist_filters_by_status_witness:
  "list_wishlist (\<lambda>v. case v of ObjectId h \<Rightarrow> h | _ \<Rightarrow> [])
     (get_documents (Some [(''wishlistitem'',
        [(''a1'', [(''name'', PStr ''Charizard''), (''status'', PStr ''watching'')]),
         (''a2'', [(''name'', PStr ''Pikachu''), (''status'', PStr ''bought'')]),
         (''a3'', [(''name'', PStr ''Mew''), (''status'', PStr ''removed'')])])]))
     (Some ''bought'')
   = Inr [(''items'',
       [[(''name'', PStr ''Pikachu''), (''status'', PStr ''bought''), (''id'', PStr ''a2'')]])]
   \<and> list_wishlist (\<lambda>v. case v of ObjectId h \<Rightarrow> h | _ \<Rightarrow> [])
     (get_documents (Some [(''wishlistitem'',
        [(''a1'', [(''name'', PStr ''Charizard''), (''status'', PStr ''watching'')]),
         (''a2'', [(''name'', PStr ''Pikachu''), (''status'', PStr ''bought'')]),
         (''a3'', [(''name'', PStr ''Mew''), (''status'', PStr ''removed'')])])]))
     None
   = Inr [(''items'',
       [[(''name'', PStr ''Charizard''), (''status'', PStr ''watching''), (''id'', PStr ''a1'')],
        [(''name'', PStr ''Pikachu''), (''status'', PStr ''bought''), (''id'', PStr ''a2'')],
        [(''name'', PStr ''Mew''), (''status'', PStr ''removed''), (''id'', PStr ''a3'')]])]
   \<and> map_of (convert_id (\<lambda>v. case v of ObjectId h \<Rightarrow> h | _ \<Rightarrow> [])
        (stored_record (''a2'', [(''name'', PStr ''Pikachu''), (''status'', PStr ''bought'')]))) ''id''
     = Some (PStr ''a2'')
   \<and> map_of (convert_id (\<lambda>v. case v of ObjectId h \<Rightarrow> h | _ \<Rightarrow> [])
        (stored_record (''a2'', [(''name'', PStr ''Pikachu''), (''status'', PStr ''bought'')]))) ''name''
     = Some (PStr ''Pikachu'')"
  using list_wishlist_filters_by_status
    [of "\<lambda>v. case v of ObjectId h \<Rightarrow> h | _ \<Rightarrow> []"
        "[(''wishlistitem'',
        [(''a1'', [(''name'', PStr ''Charizard''), (''status'', PStr ''watching'')]),
         (''a2'', [(''name'', PStr ''Pikachu''), (''status'', PStr ''bought'')]),
         (''a3'', [(''name'', PStr ''Mew''), (''status'', PStr ''removed'')])])]"]
  by (simp add: collection_def stored_record_def convert_id_def)

section \<open>The diagnostic route never raises\<close>

text \<open>
  Claim C5: \<open>GET /test\<close> never raises. For every state of the database handle, every
  behaviour of the listing and every environment it returns a response; the response
  holds at most ten collection names, the first ten of the listing; its \<open>database\<close>
  field tells whether the handle is present; an error of the listing is kept as the
  first 80 characters of its text in that field; and \<open>database_url\<close> and
  \<open>database_name\<close> report whether the two environment variables are set.
\<close>

theorem test_database_never_raises:
  "\<exists>r. test_database db list_collection_names env = Inr r
     \<and> length (collections r) \<le> 10
     \<and> (db = None \<longrightarrow>
          database r = WARNING_SIGN @ ''  Available but not initialized'' \<and> collections r = [])
     \<and> (\<forall>h names. db = Some h \<and> list_collection_names h = Inr names \<longrightarrow>
          database r = CHECK_MARK @ '' Connected & Working'' \<and> collections r = take 10 names)
     \<and> (\<forall>h e. db = Some h \<and> list_collection_names h = Inl e \<longrightarrow>
          database r = WARNING_SIGN @ ''  Connected but Error: '' @ take 80 (exc_str e)
          \<and> collections r = [])
     \<and> database_url r =
          Some (if env_set env ''DATABASE_URL'' then CHECK_MARK @ '' Set''
                else CROSS_MARK @ '' Not Set'')
     \<and> database_name r =
          Some (if env_set env ''DATABASE_NAME'' then CHECK_MARK @ '' Set''
                else CROSS_MARK @ '' Not Set'')"
proof (cases db)
  case None
  then show ?thesis
    by (simp add: test_database_def env_set_def)
next
  case (Some h)
  show ?thesis
  proof (cases "list_collection_names h")
    case (Inl e)
    with Some show ?thesis
      by (simp add: test_database_def env_set_def)
  next
    case (Inr names)
    with Some show ?thesis
      by (simp add: test_database_def env_set_def)
  qed
qed

text \<open>
  The claim with a listing that raises, with a listing of twelve names and without a
  handle.
\<close>

theorem test_database_never_raises_witness:
  "(case test_database (Some ()) (\<lambda>h. Inl (Exception ''timed out''))
           (map_of [(''DATABASE_URL'', ''mongodb://db'')]) of
      Inl e \<Rightarrow> False
    | Inr r \<Rightarrow> database r = WARNING_SIGN @ ''  Connected but Error: timed out''
        \<and> collections r = []
        \<and> database_url r = Some (CHECK_MARK @ '' Set'')
        \<and> database_name r = Some (CROSS_MARK @ '' Not Set''))
   \<and> (case test_database (Some ())
           (\<lambda>h. Inr [''a'', ''b'', ''c'', ''d'', ''e'', ''f'', ''g'', ''h'', ''i'', ''j'', ''k'', ''l''])
           (map_of []) of
      Inl e \<Rightarrow> False
    | Inr r \<Rightarrow> collections r = [''a'', ''b'', ''c'', ''d'', ''e'', ''f'', ''g'', ''h'', ''i'', ''j''])
   \<and> (case test_database (None :: unit option) (\<lambda>h. Inr []) (map_of []) of
      Inl e \<Rightarrow> False
    | Inr r \<Rightarrow> database r = WARNING_SIGN @ ''  Available but not initialized'')"
proof -
  have a: "case test_database (Some ()) (\<lambda>h. Inl (Exception ''timed out''))
           (map_of [(''DATABASE_URL'', ''mongodb://db'')]) of
      Inl e \<Rightarrow> False
    | Inr r \<Rightarrow> database r = WARNING_SIGN @ ''  Connected but Error: timed out''
        \<and> collections r = []
        \<and> database_url r = Some (CHECK_MARK @ '' Set'')
        \<and> database_name r = Some (CROSS_MARK @ '' Not Set'')"
    using test_database_never_raises
      [of "Some ()" "\<lambda>h. Inl (Exception ''timed out'')"
          "map_of [(''DATABASE_URL'', ''mongodb://db'')]"]
    by (auto simp add: env_set_def getenv_def)
  have b: "case test_database (Some ())
           (\<lambda>h. Inr [''a'', ''b'', ''c'', ''d'', ''e'', ''f'', ''g'', ''h'', ''i'', ''j'', ''k'', ''l''])
           (map_of []) of
      Inl e \<Rightarrow> False
    | Inr r \<Rightarrow> collections r = [''a'', ''b'', ''c'', ''d'', ''e'', ''f'', ''g'', ''h'', ''i'', ''j'']"
    using test_database_never_raises
      [of "Some ()"
          "\<lambda>h. Inr [''a'', ''b'', ''c'', ''d'', ''e'', ''f'', ''g'', ''h'', ''i'', ''j'', ''k'', ''l'']"
          "map_of []"]
    by auto
  have c: "case test_database (None :: unit option) (\<lambda>h. Inr []) (map_of []) of
      Inl e \<Rightarrow> False
    | Inr r \<Rightarrow> database r = WARNING_SIGN @ ''  Available but not initialized''"
    using test_database_never_raises [of "None :: unit option" "\<lambda>h. Inr []" "map_of []"]
    by auto
  from a b c show ?thesis by simp
qed

section \<open>What the search forwards\<close>

text \<open>
  Claim C6, as amended: for every request to \<open>GET /api/cards\<close>, whatever \<open>q\<close>, \<open>page\<close> and
  \<open>pageSize\<close> it gives or leaves out, the one upstream call carries exactly \<open>page\<close>
  (1 when left out) and \<open>pageSize\<close> (24 when left out), whatever integers they are, and
  \<open>q\<close> untouched when it is neither null nor the empty string; when the upstream
  answers 200 with a JSON body, that body is returned unchanged.
\<close>

theorem search_cards_forwarding:
  "get_api_cards requests_get q page pageSize =
     search_cards requests_get q
       (case page of None \<Rightarrow> 1 | Some p \<Rightarrow> p)
       (case pageSize of None \<Rightarrow> 24 | Some n \<Rightarrow> n)
   \<and> search_params q page_no page_size =
     [(''page'', QInt page_no), (''pageSize'', QInt page_size)] @
     (case q of None \<Rightarrow> [] | Some s \<Rightarrow> if s = [] then [] else [(''q'', QStr s)])
   \<and> get_api_cards requests_get q page pageSize =
     except_Exception_500
       (case requests_get (PTCG_API_BASE @ ''/cards'')
               ([(''page'', QInt (case page of None \<Rightarrow> 1 | Some p \<Rightarrow> p)),
                 (''pageSize'', QInt (case pageSize of None \<Rightarrow> 24 | Some n \<Rightarrow> n))] @
                (case q of None \<Rightarrow> [] | Some s \<Rightarrow> if s = [] then [] else [(''q'', QStr s)])) of
          Inl e \<Rightarrow> Inl e
        | Inr r \<Rightarrow>
            if status_code r \<noteq> 200 then Inl (HTTPException (status_code r) (text' r))
            else json r)
   \<and> (requests_get (PTCG_API_BASE @ ''/cards'')
         ([(''page'', QInt (case page of None \<Rightarrow> 1 | Some p \<Rightarrow> p)),
           (''pageSize'', QInt (case pageSize of None \<Rightarrow> 24 | Some n \<Rightarrow> n))] @
          (case q of None \<Rightarrow> [] | Some s \<Rightarrow> if s = [] then [] else [(''q'', QStr s)])) = Inr r
        \<and> status_code r = 200 \<and> json r = Inr body
        \<longrightarrow> get_api_cards requests_get q page pageSize = Inr body)"
  by (simp add: search_params_eq search_cards_def get_api_cards_def except_Exception_500_simps)

text \<open>
  The amended claim on the request \<open>q=name:Charizard&page=2&pageSize=10\<close>, on the request
  \<open>q=name:Charizard\<close> that leaves out both numbers, and on the request \<open>page=-3\<close>, each
  with an upstream that answers 200 to exactly the expected call.
\<close>

theorem search_cards_forwarding_witness:
  "search_params (Some ''name:Charizard'') 2 10 =
     [(''page'', QInt 2), (''pageSize'', QInt 10), (''q'', QStr ''name:Charizard'')]
   \<and> get_api_cards
       (\<lambda>url params.
          if url = ''https://api.pokemontcg.io/v2/cards''
            \<and> params = [(''page'', QInt 2), (''pageSize'', QInt 10), (''q'', QStr ''name:Charizard'')]
          then Inr \<lparr>status_code = 200, text' = ''{}'', json = Inr (7::nat)\<rparr>
          else Inl (Exception ''unexpected call''))
       (Some ''name:Charizard'') (Some 2) (Some 10) = Inr 7
   \<and> get_api_cards
       (\<lambda>url params.
          if url = ''https://api.pokemontcg.io/v2/cards''
            \<and> params = [(''page'', QInt 1), (''pageSize'', QInt 24), (''q'', QStr ''name:Charizard'')]
          then Inr \<lparr>status_code = 200, text' = ''{}'', json = Inr (8::nat)\<rparr>
          else Inl (Exception ''unexpected call''))
       (Some ''name:Charizard'') None None = Inr 8
   \<and> get_api_cards
       (\<lambda>url params.
          if url = ''https://api.pokemontcg.io/v2/cards''
            \<and> params = [(''page'', QInt (- 3)), (''pageSize'', QInt 24)]
          then Inr \<lparr>status_code = 200, text' = ''{}'', json = Inr (9::nat)\<rparr>
          else Inl (Exception ''unexpected call''))
       None (Some (- 3)) None = Inr 9"
  using search_cards_forwarding
    [where q = "Some ''name:Charizard''" and page = "Some 2" and pageSize = "Some 10"
       and page_no = 2 and page_size = 10
       and requests_get = "\<lambda>url params.
          if url = ''https://api.pokemontcg.io/v2/cards''
            \<and> params = [(''page'', QInt 2), (''pageSize'', QInt 10), (''q'', QStr ''name:Charizard'')]
          then Inr \<lparr>status_code = 200, text' = ''{}'', json = Inr (7::nat)\<rparr>
          else Inl (Exception ''unexpected call'')"
       and r = "\<lparr>status_code = 200, text' = ''{}'', json = Inr (7::nat)\<rparr>" and body = 7]
    search_cards_forwarding
    [where q = "Some ''name:Charizard''" and page = None and pageSize = None
       and requests_get = "\<lambda>url params.
          if url = ''https://api.pokemontcg.io/v2/cards''
            \<and> params = [(''page'', QInt 1), (''pageSize'', QInt 24), (''q'', QStr ''name:Charizard'')]
          then Inr \<lparr>status_code = 200, text' = ''{}'', json = Inr (8::nat)\<rparr>
          else Inl (Exception ''unexpected call'')"
       and r = "\<lparr>status_code = 200, text' = ''{}'', json = Inr (8::nat)\<rparr>" and body = 8]
    search_cards_forwarding
    [where q = None and page = "Some (- 3)" and pageSize = None
       and requests_get = "\<lambda>url params.
          if url = ''https://api.pokemontcg.io/v2/cards''
            \<and> params = [(''page'', QInt (- 3)), (''pageSize'', QInt 24)]
          then Inr \<lparr>status_code = 200, text' = ''{}'', json = Inr (9::nat)\<rparr>
          else Inl (Exception ''unexpected call'')"
       and r = "\<lparr>status_code = 200, text' = ''{}'', json = Inr (9::nat)\<rparr>" and body = 9]
  by (simp add: PTCG_API_BASE_def get_api_cards_def except_Exception_500_simps)

text \<open>
  Claim C6 as stated fails: the query \<open>q\<close> given as the empty string is not null, and
  it is not forwarded.
\<close>

theorem empty_q_is_not_forwarded:
  "search_params (Some []) 1 24 = [(''page'', QInt 1), (''pageSize'', QInt 24)]
   \<and> map_of (search_params (Some []) 1 24) ''q'' \<noteq> Some (QStr [])"
  by (simp add: search_params_def)

text \<open>
  Claim C9: an optional parameter given as the empty string is treated as absent.
  \<open>GET /api/wishlist\<close> with the empty string as status calls \<open>get_documents\<close> with the
  empty filter and returns what it returns without a status, whatever
  \<open>get_documents\<close> does; \<open>GET /api/cards\<close> with the empty string as query forwards no
  \<open>q\<close> and answers as without a query.
\<close>

theorem empty_parameters_are_absent:
  "list_wishlist py_str get_docs (Some []) = list_wishlist py_str get_docs None
   \<and> list_wishlist py_str get_docs (Some []) =
       except_Exception_500
         (case get_docs ''wishlistitem'' [] of
            Inl e \<Rightarrow> Inl e
          | Inr docs \<Rightarrow> Inr [(''items'', map (convert_id py_str) docs)])
   \<and> search_params (Some []) page pageSize = search_params None page pageSize
   \<and> map_of (search_params (Some []) page pageSize) ''q'' = None
   \<and> search_cards requests_get (Some []) page pageSize
       = search_cards requests_get None page pageSize"
  by (simp add: list_wishlist_def search_params_def search_cards_def)

section \<open>The Cardmarket placeholder never succeeds\<close>

text \<open>
  Claim C4, as amended: for every card and every environment
  \<open>GET /api/prices/cardmarket/{card_id}\<close> fails with status 501 and never returns a
  value; the detail says that the API is not configured when \<open>CARDMARKET_APP_TOKEN\<close> is
  not set (missing or empty), whatever the other credential variables hold, and that the
  integration is pending otherwise.
\<close>

theorem cardmarket_always_501:
  "get_cardmarket_price env cid =
     Inl (HTTPException 501
            (if env_set env ''CARDMARKET_APP_TOKEN'' then PENDING else NOT_CONFIGURED))
   \<and> (\<forall>v. get_cardmarket_price env cid \<noteq> Inr v)"
  by (simp add: get_cardmarket_price_def env_set_def)

text \<open>The amended claim in the empty environment and in one that has the token.\<close>

theorem cardmarket_always_501_witness:
  "get_cardmarket_price (map_of []) ''sv3-1''
     = Inl (HTTPException 501
         ''Cardmarket API not configured. Provide OAuth credentials to enable.'')
   \<and> get_cardmarket_price (map_of [(''CARDMARKET_APP_TOKEN'', ''tok'')]) ''sv3-1''
     = Inl (HTTPException 501 ''Cardmarket integration pending implementation.'')"
  using cardmarket_always_501 [of "map_of []" "''sv3-1''"]
    cardmarket_always_501 [of "map_of [(''CARDMARKET_APP_TOKEN'', ''tok'')]" "''sv3-1''"]
  by (simp add: env_set_def getenv_def NOT_CONFIGURED_def PENDING_def)

text \<open>
  Claim C4 as stated fails: with three of the four credentials present and the
  application token missing, the detail is not the one of a pending integration.
\<close>

theorem partial_credentials_not_pending:
  "credentials_present
     (map_of [(''APP_SECRET'', ''s''), (''ACCESS_TOKEN'', ''t''), (''ACCESS_TOKEN_SECRET'', ''u'')])
   \<and> get_cardmarket_price
       (map_of [(''APP_SECRET'', ''s''), (''ACCESS_TOKEN'', ''t''), (''ACCESS_TOKEN_SECRET'', ''u'')])
       ''sv3-1''
     = Inl (HTTPException 501 NOT_CONFIGURED)
   \<and> get_cardmarket_price
       (map_of [(''APP_SECRET'', ''s''), (''ACCESS_TOKEN'', ''t''), (''ACCESS_TOKEN_SECRET'', ''u'')])
       ''sv3-1''
     \<noteq> Inl (HTTPException 501 PENDING)"
  by (simp add: credentials_present_def credential_variables_def get_cardmarket_price_def
      getenv_def NOT_CONFIGURED_def PENDING_def)

text \<open>
  Claim C10: the answer of \<open>GET /api/prices/cardmarket/{card_id}\<close> depends only on
  whether \<open>CARDMARKET_APP_TOKEN\<close> is set. Two runs that agree on it give the same
  answer, whatever their card identifiers and the rest of their environments, the other
  three credential variables included.
\<close>

theorem cardmarket_depends_on_token_only:
  "env_set env1 ''CARDMARKET_APP_TOKEN'' = env_set env2 ''CARDMARKET_APP_TOKEN''
   \<Longrightarrow> get_cardmarket_price env1 cid1 = get_cardmarket_price env2 cid2"
  by (simp add: get_cardmarket_price_def env_set_def)

text \<open>
  The claim on two runs that both have the token and differ in its value, in the card
  and in \<open>APP_SECRET\<close>.
\<close>

theorem cardmarket_depends_on_token_only_witness:
  "env_set (map_of [(''CARDMARKET_APP_TOKEN'', ''tok''), (''APP_SECRET'', ''s'')])
       ''CARDMARKET_APP_TOKEN''
     = env_set (map_of [(''CARDMARKET_APP_TOKEN'', ''other'')]) ''CARDMARKET_APP_TOKEN''
   \<and> get_cardmarket_price
       (map_of [(''CARDMARKET_APP_TOKEN'', ''tok''), (''APP_SECRET'', ''s'')]) ''sv3-1''
     = get_cardmarket_price (map_of [(''CARDMARKET_APP_TOKEN'', ''other'')]) ''base1-4''"
proof -
  have h: "env_set (map_of [(''CARDMARKET_APP_TOKEN'', ''tok''), (''APP_SECRET'', ''s'')])
       ''CARDMARKET_APP_TOKEN''
     = env_set (map_of [(''CARDMARKET_APP_TOKEN'', ''other'')]) ''CARDMARKET_APP_TOKEN''"
    by (simp add: env_set_def getenv_def)
  show ?thesis
    using h cardmarket_depends_on_token_only [OF h, of "''sv3-1''" "''base1-4''"] by simp
qed

end
